theory Spec2Isabelle
  imports Complex_Main "HOL-Library.Multiset"
begin

section \<open>Geometry helpers of geolib/utils.py\<close>

text \<open>
  The four geometry helpers of \<^verbatim>\<open>geolib/utils.py\<close> work on lists of coordinate
  pairs.  A Python \<^verbatim>\<open>float\<close> is modelled as a \<^typ>\<open>real\<close>: rounding, infinities and
  NaN are outside the model.  What Python does beyond arithmetic is kept: every
  exception the functions can raise is a value of \<open>error\<close>, and a function that can
  raise returns \<open>error + 'a\<close> with \<open>Inl\<close> for the exception.
\<close>

type_synonym point = "real \<times> real"

datatype error =
    ZeroDivisionError            \<comment> \<open>\<^verbatim>\<open>a / b\<close> with \<^verbatim>\<open>b == 0\<close>\<close>
  | ValueError_NotBetween        \<comment> \<open>raised at the end of \<^verbatim>\<open>polyline_z_at\<close>\<close>
  | ValueError_Unimplemented string   \<comment> \<open>raised by \<^verbatim>\<open>polyline_polyline_intersections\<close>\<close>
  | ValueError_EmptySequence     \<comment> \<open>\<^verbatim>\<open>min([])\<close>, \<^verbatim>\<open>max([])\<close>\<close>
  | ValueError_NotInList         \<comment> \<open>\<^verbatim>\<open>xs.index(v)\<close> with \<^verbatim>\<open>v\<close> absent\<close>
  | IndexError                   \<comment> \<open>\<^verbatim>\<open>xs[i]\<close> out of range\<close>
  | ShapelyError                 \<comment> \<open>any exception of the geometry library\<close>

subsection \<open>Python primitives\<close>

text \<open>True division of Python floats: a zero divisor raises, it never yields inf or NaN.\<close>

definition truediv :: "real \<Rightarrow> real \<Rightarrow> error + real" where
  "truediv a b = (if b = 0 then Inl ZeroDivisionError else Inr (a / b))"

subsection \<open>polyline_z_at\<close>

text \<open>
  \<^verbatim>\<open>for i in range(1, len(points))\<close>: the loop variable is the argument \<open>i\<close>; the loop
  is left by the \<^verbatim>\<open>return\<close> (or by the exception of the division) at the first pair
  with \<^verbatim>\<open>x1 <= x and x <= x2\<close>, and the \<^verbatim>\<open>raise\<close> after the loop is the value for an
  exhausted range.
\<close>

function polyline_z_at_loop :: "point list \<Rightarrow> real \<Rightarrow> nat \<Rightarrow> error + real" where
  "polyline_z_at_loop points x i =
     (if i < length points then
        (case (points ! (i - 1), points ! i) of ((x1, y1), (x2, y2)) \<Rightarrow>
           if x1 \<le> x \<and> x \<le> x2 then
             (case truediv (x - x1) (x2 - x1) of
                Inl e \<Rightarrow> Inl e
              | Inr q \<Rightarrow> Inr (y1 + q * (y2 - y1)))
           else polyline_z_at_loop points x (i + 1))
      else Inl ValueError_NotBetween)"
  by pat_completeness auto
termination
  by (relation "measure (\<lambda>(points, x, i). length points - i)") auto

definition polyline_z_at :: "point list \<Rightarrow> real \<Rightarrow> error + real" where
  "polyline_z_at points x = polyline_z_at_loop points x 1"

text \<open>The test of the loop body at index \<open>i\<close>: the pair \<open>(points[i-1], points[i])\<close> brackets \<open>x\<close>.\<close>

definition brackets :: "point list \<Rightarrow> real \<Rightarrow> nat \<Rightarrow> bool" where
  "brackets points x i \<longleftrightarrow> fst (points ! (i - 1)) \<le> x \<and> x \<le> fst (points ! i)"

subsection \<open>Lists as Python uses them\<close>

text \<open>
  \<^verbatim>\<open>min(vs)\<close> and \<^verbatim>\<open>max(vs)\<close> keep their current candidate unless the next
  element is strictly smaller (larger); on an empty list they raise ValueError.
\<close>

fun py_min :: "real list \<Rightarrow> error + real" where
  "py_min [] = Inl ValueError_EmptySequence"
| "py_min (v # vs) = Inr (fold (\<lambda>w m. if w < m then w else m) vs v)"

fun py_max :: "real list \<Rightarrow> error + real" where
  "py_max [] = Inl ValueError_EmptySequence"
| "py_max (v # vs) = Inr (fold (\<lambda>w m. if w > m then w else m) vs v)"

text \<open>\<^verbatim>\<open>xs[0]\<close> and \<^verbatim>\<open>xs[-1]\<close>: IndexError on the empty list.\<close>

definition first_item :: "'a list \<Rightarrow> error + 'a" where
  "first_item xs = (if xs = [] then Inl IndexError else Inr (xs ! 0))"

definition last_item :: "'a list \<Rightarrow> error + 'a" where
  "last_item xs = (if xs = [] then Inl IndexError else Inr (xs ! (length xs - 1)))"

text \<open>\<^verbatim>\<open>xs.index(v)\<close>: the position of the first element equal to \<open>v\<close>, ValueError if there is none.\<close>

fun list_index :: "'a list \<Rightarrow> 'a \<Rightarrow> error + nat" where
  "list_index [] v = Inl ValueError_NotInList"
| "list_index (y # ys) v =
     (if y = v then Inr 0
      else (case list_index ys v of Inl e \<Rightarrow> Inl e | Inr k \<Rightarrow> Inr (Suc k)))"

text \<open>
  \<^verbatim>\<open>xs[a:b]\<close> for indices that are not negative: both ends are clamped to the length,
  and the slice is empty when \<open>b \<le> a\<close>.  \<^verbatim>\<open>xs[a:]\<close> is \<open>drop a xs\<close> and \<^verbatim>\<open>xs[:b]\<close> is
  \<open>take b xs\<close>.
\<close>

definition slice :: "'a list \<Rightarrow> nat \<Rightarrow> nat \<Rightarrow> 'a list" where
  "slice xs a b = take (b - a) (drop a xs)"

text \<open>Sequencing of two computations that can raise.\<close>

definition and_then :: "error + 'a \<Rightarrow> ('a \<Rightarrow> error + 'b) \<Rightarrow> error + 'b" where
  "and_then r f = (case r of Inl e \<Rightarrow> Inl e | Inr v \<Rightarrow> f v)"

subsection \<open>top_of_polygon and bottom_of_polygon\<close>

text \<open>
  \<^verbatim>\<open>sorted(ps, key=lambda x: x[1])\<close> is a stable sort on the second coordinate; so is
  \<open>sort_key snd\<close>.  The statements follow the source line by line.
\<close>

definition top_of_polygon :: "point list \<Rightarrow> error + point list" where
  "top_of_polygon points =
     and_then (py_min (map fst points)) (\<lambda>left.
     and_then (last_item (sort_key snd (filter (\<lambda>p. fst p = left) points))) (\<lambda>topleft_point.
     and_then (py_max (map fst points)) (\<lambda>right.
     and_then (last_item (sort_key snd (filter (\<lambda>p. fst p = right) points))) (\<lambda>topright_point.
     and_then (list_index points topleft_point) (\<lambda>idx_left.
     and_then (list_index points topright_point) (\<lambda>idx_right.
       Inr (if idx_right > idx_left then slice points idx_left (idx_right + 1)
            else drop idx_left points @ take (idx_right + 1) points)))))))"

definition bottom_of_polygon :: "point list \<Rightarrow> error + point list" where
  "bottom_of_polygon points =
     and_then (py_min (map fst points)) (\<lambda>left.
     and_then (first_item (sort_key snd (filter (\<lambda>p. fst p = left) points))) (\<lambda>bottomleft_point.
     and_then (py_max (map fst points)) (\<lambda>right.
     and_then (first_item (sort_key snd (filter (\<lambda>p. fst p = right) points))) (\<lambda>bottomright_point.
     and_then (list_index points bottomleft_point) (\<lambda>idx_left.
     and_then (list_index points bottomright_point) (\<lambda>idx_right.
       Inr (rev (if idx_left > idx_right then slice points idx_right (idx_left + 1)
                 else drop idx_right points @ take (idx_left + 1) points))))))))"

text \<open>
  The bottom extraction as the specification words it: the same two vertices are
  selected, but the run goes from the left index to the right index and wraps when
  the right index precedes the left one (the rule of \<open>top_of_polygon\<close>), and that run
  is reversed.  It is compared with \<open>bottom_of_polygon\<close> below.
\<close>

definition bottom_of_polygon_spec :: "point list \<Rightarrow> error + point list" where
  "bottom_of_polygon_spec points =
     and_then (py_min (map fst points)) (\<lambda>left.
     and_then (first_item (sort_key snd (filter (\<lambda>p. fst p = left) points))) (\<lambda>bottomleft_point.
     and_then (py_max (map fst points)) (\<lambda>right.
     and_then (first_item (sort_key snd (filter (\<lambda>p. fst p = right) points))) (\<lambda>bottomright_point.
     and_then (list_index points bottomleft_point) (\<lambda>idx_left.
     and_then (list_index points bottomright_point) (\<lambda>idx_right.
       Inr (rev (if idx_right < idx_left then drop idx_left points @ take (idx_right + 1) points
                 else slice points idx_left (idx_right + 1)))))))))"

text \<open>Vocabulary of the statements about the polygon functions.\<close>

definition first_index :: "'a list \<Rightarrow> 'a \<Rightarrow> nat \<Rightarrow> bool" where
  "first_index xs v i \<longleftrightarrow> i < length xs \<and> xs ! i = v \<and> v \<notin> set (take i xs)"

definition circular_run :: "'a list \<Rightarrow> nat \<Rightarrow> nat \<Rightarrow> 'a list" where
  "circular_run xs start n = map (\<lambda>k. xs ! ((start + k) mod length xs)) [0..<n]"

definition lowest_at :: "point list \<Rightarrow> real \<Rightarrow> point" where
  "lowest_at points x0 = (x0, Min (snd ` {p \<in> set points. fst p = x0}))"

definition highest_at :: "point list \<Rightarrow> real \<Rightarrow> point" where
  "highest_at points x0 = (x0, Max (snd ` {p \<in> set points. fst p = x0}))"

subsection \<open>polyline_polyline_intersections\<close>

text \<open>
  The geometry library (shapely) is not part of the repository.  What the function
  reads of the object returned by \<^verbatim>\<open>ls1.intersection(ls2)\<close> is its class, whether it is
  empty, and its coordinates; \<open>geometry\<close> holds exactly that.  A \<open>Point\<close> has one
  coordinate pair or none (the empty point), a \<open>MultiPoint\<close> its member points, a
  \<open>LineString\<close> its vertices; any other class is \<open>OtherGeometry\<close> with its name and its
  \<^verbatim>\<open>is_empty\<close>.
\<close>

datatype geometry =
    Point "point option"
  | MultiPoint "point list"
  | LineString "point list"
  | OtherGeometry string bool

fun is_empty :: "geometry \<Rightarrow> bool" where
  "is_empty (Point c) = (c = None)"
| "is_empty (MultiPoint gs) = (gs = [])"
| "is_empty (LineString cs) = (cs = [])"
| "is_empty (OtherGeometry nm e) = e"

text \<open>
  Lines 70 to 82, the value of \<^verbatim>\<open>result\<close>.  The second \<^verbatim>\<open>is_empty\<close> test returns \<open>[]\<close>
  at once; it is kept in its place, with the value \<open>[]\<close> that the rest of the function
  also returns for an empty \<^verbatim>\<open>result\<close>.
\<close>

definition intersection_result :: "geometry \<Rightarrow> error + point list" where
  "intersection_result intersections =
     (if is_empty intersections then Inr []
      else (case intersections of
          MultiPoint gs \<Rightarrow> Inr gs
        | Point c \<Rightarrow> (case c of None \<Rightarrow> Inl IndexError | Some p \<Rightarrow> Inr [p])
        | LineString cs \<Rightarrow> Inr []
        | OtherGeometry nm e \<Rightarrow>
            if e then Inr [] else Inl (ValueError_Unimplemented nm)))"

text \<open>
  The function itself.  Its first argument stands for the library:
  \<open>intersection l1 l2\<close> is \<^verbatim>\<open>LineString(l1).intersection(LineString(l2))\<close>, which can raise.
\<close>

definition polyline_polyline_intersections ::
  "(point list \<Rightarrow> point list \<Rightarrow> error + geometry) \<Rightarrow> point list \<Rightarrow> point list \<Rightarrow> error + point list"
where
  "polyline_polyline_intersections intersection points_line1 points_line2 =
     and_then (intersection points_line1 points_line2) (\<lambda>intersections.
     and_then (intersection_result intersections) (\<lambda>result.
       let final_result = filter (\<lambda>p. \<not> p \<in> set points_line1 \<or> p \<in> set points_line2) result
       in if length final_result = 0 then Inr []
          else Inr (sort_key fst final_result)))"

section \<open>Properties of polyline_z_at\<close>

lemmas polyline_z_at_loop_unfold = polyline_z_at_loop.simps

declare polyline_z_at_loop.simps [simp del]

lemma loop_exhausted:
  "length points \<le> i \<Longrightarrow> polyline_z_at_loop points x i = Inl ValueError_NotBetween"
  by (subst polyline_z_at_loop_unfold) simp

lemma loop_skip:
  "i < length points \<Longrightarrow> \<not> brackets points x i \<Longrightarrow>
     polyline_z_at_loop points x i = polyline_z_at_loop points x (Suc i)"
  by (subst polyline_z_at_loop_unfold) (auto simp: brackets_def split: prod.splits)

lemma loop_hit:
  "i < length points \<Longrightarrow> brackets points x i \<Longrightarrow>
     polyline_z_at_loop points x i =
       (case truediv (x - fst (points ! (i - 1))) (fst (points ! i) - fst (points ! (i - 1))) of
          Inl e \<Rightarrow> Inl e
        | Inr q \<Rightarrow> Inr (snd (points ! (i - 1)) + q * (snd (points ! i) - snd (points ! (i - 1)))))"
  by (subst polyline_z_at_loop_unfold) (auto simp: brackets_def split: prod.splits sum.splits)

lemma loop_skip_many:
  "k \<le> i \<Longrightarrow> i \<le> length points \<Longrightarrow> \<forall>j. k \<le> j \<and> j < i \<longrightarrow> \<not> brackets points x j \<Longrightarrow>
     polyline_z_at_loop points x k = polyline_z_at_loop points x i"
proof (induction "i - k" arbitrary: k)
  case 0
  then show ?case by simp
next
  case (Suc d)
  then have "k < i" "k < length points" "\<not> brackets points x k"
    by auto
  then have "polyline_z_at_loop points x k = polyline_z_at_loop points x (Suc k)"
    by (simp add: loop_skip)
  also have "\<dots> = polyline_z_at_loop points x i"
    using Suc by (intro Suc.hyps(1)) auto
  finally show ?case .
qed

lemma z_at_first_bracket:
  assumes "0 < i" "i < length points" "brackets points x i"
    and "\<forall>j. 0 < j \<and> j < i \<longrightarrow> \<not> brackets points x j"
  shows "polyline_z_at points x =
       (case truediv (x - fst (points ! (i - 1))) (fst (points ! i) - fst (points ! (i - 1))) of
          Inl e \<Rightarrow> Inl e
        | Inr q \<Rightarrow> Inr (snd (points ! (i - 1)) + q * (snd (points ! i) - snd (points ! (i - 1)))))"
proof -
  have "polyline_z_at points x = polyline_z_at_loop points x i"
    unfolding polyline_z_at_def using assms by (intro loop_skip_many) auto
  then show ?thesis using assms by (simp add: loop_hit)
qed

lemma z_at_no_bracket:
  assumes "\<forall>j. 0 < j \<and> j < length points \<longrightarrow> \<not> brackets points x j"
  shows "polyline_z_at points x = Inl ValueError_NotBetween"
proof (cases "1 \<le> length points")
  case True
  have "polyline_z_at points x = polyline_z_at_loop points x (length points)"
    unfolding polyline_z_at_def using assms True by (intro loop_skip_many) auto
  then show ?thesis by (simp add: loop_exhausted)
next
  case False
  then show ?thesis by (simp add: polyline_z_at_def loop_exhausted)
qed

lemma strictly_decreasing_no_bracket:
  assumes "sorted_wrt (>) (map fst points)" "0 < j" "j < length points"
  shows "\<not> brackets points x j"
proof -
  have "j - 1 < j" "j < length (map fst points)"
    using assms by auto
  then have "map fst points ! (j - 1) > map fst points ! j"
    using assms(1) sorted_wrt_nth_less by blast
  then have "fst (points ! j) < fst (points ! (j - 1))"
    using assms by simp
  then show ?thesis
    by (auto simp: brackets_def)
qed

text \<open>
  C7.  The scan goes through the consecutive pairs in sequence order.  At the first
  index \<open>i\<close> whose pair \<open>(x1, y1)\<close>, \<open>(x2, y2)\<close> has \<open>x1 \<le> x \<le> x2\<close> (no earlier pair
  brackets \<open>x\<close>), and when \<open>x1 \<noteq> x2\<close>, the function returns
  \<open>y1 + (x - x1) / (x2 - x1) * (y2 - y1)\<close>.  On \<open>[(0,0),(10,10)]\<close> with \<open>x = 5\<close> it
  returns \<open>5\<close>.
\<close>

theorem polyline_z_at_interpolates:
  "(0 < i \<and> i < length points \<and> points ! (i - 1) = (x1, y1) \<and> points ! i = (x2, y2)
      \<and> x1 \<le> x \<and> x \<le> x2 \<and> x1 \<noteq> x2
      \<and> (\<forall>j. 0 < j \<and> j < i \<longrightarrow> \<not> brackets points x j)
    \<longrightarrow> polyline_z_at points x = Inr (y1 + (x - x1) / (x2 - x1) * (y2 - y1)))
   \<and> polyline_z_at [(0, 0), (10, 10)] 5 = Inr 5"
proof (intro conjI impI)
  assume h: "0 < i \<and> i < length points \<and> points ! (i - 1) = (x1, y1) \<and> points ! i = (x2, y2)
      \<and> x1 \<le> x \<and> x \<le> x2 \<and> x1 \<noteq> x2
      \<and> (\<forall>j. 0 < j \<and> j < i \<longrightarrow> \<not> brackets points x j)"
  then have "brackets points x i"
    by (simp add: brackets_def)
  with h show "polyline_z_at points x = Inr (y1 + (x - x1) / (x2 - x1) * (y2 - y1))"
    using z_at_first_bracket [of i points x] by (simp add: truediv_def)
next
  show "polyline_z_at [(0, 0), (10, 10)] 5 = Inr 5"
    by (simp add: polyline_z_at_def polyline_z_at_loop_unfold truediv_def)
qed

text \<open>
  The theorem at the polyline \<open>[(8,1),(0,0),(10,10)]\<close> and \<open>x = 5\<close>: the first pair
  does not bracket \<open>5\<close>, the second one does.
\<close>

theorem polyline_z_at_interpolates_witness:
  "0 < (2::nat) \<and> 2 < length ([(8, 1), (0, 0), (10, 10)] :: point list)
   \<and> ([(8, 1), (0, 0), (10, 10)] :: point list) ! (2 - 1) = (0, 0) \<and> ([(8, 1), (0, 0), (10, 10)] :: point list) ! 2 = (10, 10)
   \<and> (0::real) \<le> 5 \<and> (5::real) \<le> 10 \<and> (0::real) \<noteq> 10
   \<and> \<not> brackets ([(8, 1), (0, 0), (10, 10)] :: point list) 5 1
   \<and> polyline_z_at ([(8, 1), (0, 0), (10, 10)] :: point list) 5 = Inr (0 + (5 - 0) / (10 - 0) * (10 - 0))"
proof -
  have nb1: "\<not> brackets ([(8, 1), (0, 0), (10, 10)] :: point list) 5 1"
    by (simp add: brackets_def)
  have nb: "\<forall>j. 0 < j \<and> j < 2 \<longrightarrow> \<not> brackets ([(8, 1), (0, 0), (10, 10)] :: point list) 5 j"
  proof (intro allI impI)
    fix j :: nat
    assume "0 < j \<and> j < 2"
    then have "j = 1" by simp
    then show "\<not> brackets ([(8, 1), (0, 0), (10, 10)] :: point list) 5 j"
      using nb1 by simp
  qed
  have pre: "0 < (2::nat) \<and> 2 < length ([(8, 1), (0, 0), (10, 10)] :: point list)
      \<and> ([(8, 1), (0, 0), (10, 10)] :: point list) ! (2 - 1) = (0, 0) \<and> ([(8, 1), (0, 0), (10, 10)] :: point list) ! 2 = (10, 10)
      \<and> (0::real) \<le> 5 \<and> (5::real) \<le> 10 \<and> (0::real) \<noteq> 10
      \<and> (\<forall>j. 0 < j \<and> j < 2 \<longrightarrow> \<not> brackets ([(8, 1), (0, 0), (10, 10)] :: point list) 5 j)"
    using nb by simp
  from polyline_z_at_interpolates
         [of 2 "[(8, 1), (0, 0), (10, 10)]" 0 0 10 10 5, THEN conjunct1, rule_format, OF pre]
  show ?thesis using pre nb1 by blast
qed

text \<open>
  C2.  When the first pair that brackets \<open>x\<close> is a vertical segment (\<open>x1 = x2\<close>), the
  call raises: the division of Python floats by \<open>x2 - x1 = 0\<close> raises
  ZeroDivisionError, and no number is returned.
\<close>

theorem polyline_z_at_vertical_segment_raises:
  assumes "0 < i" "i < length points"
    and "brackets points x i"
    and "\<forall>j. 0 < j \<and> j < i \<longrightarrow> \<not> brackets points x j"
    and "fst (points ! (i - 1)) = fst (points ! i)"
  shows "polyline_z_at points x = Inl ZeroDivisionError"
  using z_at_first_bracket [OF assms(1-4)] assms(5) by (simp add: truediv_def)

text \<open>
  The theorem at \<open>[(5,0),(1,1),(1,5)]\<close> and \<open>x = 1\<close>: the first pair does not bracket
  \<open>1\<close>, the second pair does and is vertical.
\<close>

theorem polyline_z_at_vertical_segment_raises_witness:
  "0 < (2::nat) \<and> 2 < length ([(5, 0), (1, 1), (1, 5)] :: point list)
   \<and> brackets ([(5, 0), (1, 1), (1, 5)] :: point list) 1 2 \<and> \<not> brackets ([(5, 0), (1, 1), (1, 5)] :: point list) 1 1
   \<and> fst (([(5, 0), (1, 1), (1, 5)] :: point list) ! (2 - 1)) = fst (([(5, 0), (1, 1), (1, 5)] :: point list) ! 2)
   \<and> polyline_z_at ([(5, 0), (1, 1), (1, 5)] :: point list) 1 = Inl ZeroDivisionError"
proof -
  have nb1: "\<not> brackets ([(5, 0), (1, 1), (1, 5)] :: point list) 1 1"
    by (simp add: brackets_def)
  have nb: "\<forall>j. 0 < j \<and> j < 2 \<longrightarrow> \<not> brackets ([(5, 0), (1, 1), (1, 5)] :: point list) 1 j"
  proof (intro allI impI)
    fix j :: nat
    assume "0 < j \<and> j < 2"
    then have "j = 1" by simp
    then show "\<not> brackets ([(5, 0), (1, 1), (1, 5)] :: point list) 1 j"
      using nb1 by simp
  qed
  have h1: "0 < (2::nat)" and h2: "2 < length ([(5, 0), (1, 1), (1, 5)] :: point list)"
    and h3: "brackets ([(5, 0), (1, 1), (1, 5)] :: point list) 1 2" and h5: "fst (([(5, 0), (1, 1), (1, 5)] :: point list) ! (2 - 1)) = fst (([(5, 0), (1, 1), (1, 5)] :: point list) ! 2)"
    by (simp_all add: brackets_def)
  from polyline_z_at_vertical_segment_raises [OF h1 h2 h3 nb h5]
  show ?thesis using h1 h2 h3 h5 nb1 by blast
qed

text \<open>
  C8.  When no consecutive pair brackets \<open>x\<close> the function raises the ValueError of
  its last statement and returns nothing.  So it does on \<open>[(0,0),(10,10)]\<close> with
  \<open>x = 15\<close>, and on every polyline whose x-coordinates are strictly decreasing, for
  every \<open>x\<close> (those inside the x-extent included).
\<close>

theorem polyline_z_at_out_of_range:
  "((\<forall>j. 0 < j \<and> j < length points \<longrightarrow> \<not> brackets points x j)
      \<longrightarrow> polyline_z_at points x = Inl ValueError_NotBetween)
   \<and> polyline_z_at [(0, 0), (10, 10)] 15 = Inl ValueError_NotBetween
   \<and> (sorted_wrt (>) (map fst points) \<longrightarrow> polyline_z_at points x = Inl ValueError_NotBetween)"
proof (intro conjI impI)
  assume "\<forall>j. 0 < j \<and> j < length points \<longrightarrow> \<not> brackets points x j"
  then show "polyline_z_at points x = Inl ValueError_NotBetween"
    by (rule z_at_no_bracket)
next
  show "polyline_z_at [(0, 0), (10, 10)] 15 = Inl ValueError_NotBetween"
    by (simp add: polyline_z_at_def polyline_z_at_loop_unfold truediv_def)
next
  assume "sorted_wrt (>) (map fst points)"
  then have "\<forall>j. 0 < j \<and> j < length points \<longrightarrow> \<not> brackets points x j"
    using strictly_decreasing_no_bracket by blast
  then show "polyline_z_at points x = Inl ValueError_NotBetween"
    by (rule z_at_no_bracket)
qed

text \<open>
  The theorem at the decreasing polyline \<open>[(10,10),(4,7),(0,0)]\<close> and \<open>x = 5\<close>, which
  lies inside its x-extent.
\<close>

theorem polyline_z_at_out_of_range_witness:
  "\<not> brackets ([(10, 10), (4, 7), (0, 0)] :: point list) 5 1 \<and> \<not> brackets ([(10, 10), (4, 7), (0, 0)] :: point list) 5 2
   \<and> sorted_wrt (>) (map fst ([(10, 10), (4, 7), (0, 0)] :: point list))
   \<and> polyline_z_at ([(10, 10), (4, 7), (0, 0)] :: point list) 5 = Inl ValueError_NotBetween"
proof -
  have dec: "sorted_wrt (>) (map fst ([(10, 10), (4, 7), (0, 0)] :: point list))"
    by simp
  have nb12: "\<not> brackets ([(10, 10), (4, 7), (0, 0)] :: point list) 5 1 \<and> \<not> brackets ([(10, 10), (4, 7), (0, 0)] :: point list) 5 2"
    by (simp add: brackets_def)
  have nb: "\<forall>j. 0 < j \<and> j < length ([(10, 10), (4, 7), (0, 0)] :: point list) \<longrightarrow> \<not> brackets ([(10, 10), (4, 7), (0, 0)] :: point list) 5 j"
  proof (intro allI impI)
    fix j :: nat
    assume "0 < j \<and> j < length ([(10, 10), (4, 7), (0, 0)] :: point list)"
    then have "j = 1 \<or> j = 2" by auto
    then show "\<not> brackets ([(10, 10), (4, 7), (0, 0)] :: point list) 5 j"
      using nb12 by auto
  qed
  from polyline_z_at_out_of_range [of "[(10, 10), (4, 7), (0, 0)]" 5] nb dec nb12
  show ?thesis by blast
qed

text \<open>
  C10.  A list with fewer than two points has no consecutive pair: the function
  raises the same ValueError for every \<open>x\<close>, also for the \<open>x\<close> of its only point.
\<close>

theorem polyline_z_at_short_list:
  "(length points < 2 \<longrightarrow> polyline_z_at points x = Inl ValueError_NotBetween)
   \<and> polyline_z_at [(x, y)] x = Inl ValueError_NotBetween"
  by (simp add: polyline_z_at_def loop_exhausted)

theorem polyline_z_at_short_list_witness:
  "length ([(3, 4)] :: point list) < 2 \<and> polyline_z_at [(3, 4)] 3 = Inl ValueError_NotBetween
   \<and> length ([] :: point list) < 2 \<and> polyline_z_at [] 3 = Inl ValueError_NotBetween"
  using polyline_z_at_short_list [of "[(3, 4)]" 3 4] polyline_z_at_short_list [of "[]" 3 4]
  by simp

section \<open>Properties of the polygon functions\<close>

lemma fold_lt_is_min: "fold (\<lambda>w m. if w < m then w else m) vs (v::real) = Min (set (v # vs))"
proof -
  have "(\<lambda>w m. if w < m then w else m) = (min :: real \<Rightarrow> real \<Rightarrow> real)"
    by (intro ext) (auto simp: min_def)
  then show ?thesis
    by (simp only: Min.set_eq_fold)
qed

lemma fold_gt_is_max: "fold (\<lambda>w m. if w > m then w else m) vs (v::real) = Max (set (v # vs))"
proof -
  have "(\<lambda>w m. if w > m then w else m) = (max :: real \<Rightarrow> real \<Rightarrow> real)"
    by (intro ext) (auto simp: max_def)
  then show ?thesis
    by (simp only: Max.set_eq_fold)
qed

lemma py_min_eq: "vs \<noteq> [] \<Longrightarrow> py_min vs = Inr (Min (set vs))"
  by (cases vs) (simp_all add: fold_lt_is_min)

lemma py_max_eq: "vs \<noteq> [] \<Longrightarrow> py_max vs = Inr (Max (set vs))"
  by (cases vs) (simp_all add: fold_gt_is_max)

lemma sorted_hd_Min:
  assumes "sorted (zs :: real list)" "zs \<noteq> []"
  shows "hd zs = Min (set zs)"
proof -
  obtain z rest where zs: "zs = z # rest"
    using assms(2) by (cases zs) auto
  with assms(1) have "\<forall>w \<in> set zs. z \<le> w"
    by auto
  then have "Min (set zs) = z"
    using zs by (intro Min_eqI) auto
  then show ?thesis using zs by simp
qed

lemma first_item_sorted:
  assumes "ps \<noteq> []"
  shows "\<exists>p. first_item (sort_key snd ps) = Inr p \<and> p \<in> set ps
            \<and> snd p = Min (snd ` set (ps :: point list))"
proof -
  let ?ys = "sort_key snd ps"
  have ne: "?ys \<noteq> []"
    using assms by (metis set_sort set_empty)
  have "sorted (map snd ?ys)"
    by (rule sorted_sort_key)
  then have "hd (map snd ?ys) = Min (set (map snd ?ys))"
    using ne by (intro sorted_hd_Min) auto
  then have "snd (hd ?ys) = Min (snd ` set ps)"
    using ne by (simp add: hd_map)
  moreover have "hd ?ys \<in> set ps"
    using ne by (metis hd_in_set set_sort)
  moreover have "first_item ?ys = Inr (hd ?ys)"
    using ne by (simp add: first_item_def hd_conv_nth)
  ultimately show ?thesis by blast
qed

lemma first_item_lowest:
  assumes "x0 \<in> fst ` set points"
  shows "first_item (sort_key snd (filter (\<lambda>p. fst p = x0) points)) = Inr (lowest_at points x0)
         \<and> lowest_at points x0 \<in> set points"
proof -
  let ?ps = "filter (\<lambda>p. fst p = x0) points"
  have "?ps \<noteq> []"
    using assms by (auto simp: filter_empty_conv)
  from first_item_sorted [OF this] obtain p where
    p: "first_item (sort_key snd ?ps) = Inr p" "p \<in> set ?ps" "snd p = Min (snd ` set ?ps)"
    by blast
  have "set ?ps = {p \<in> set points. fst p = x0}"
    by auto
  with p have "p = lowest_at points x0"
    by (auto simp: lowest_at_def prod_eq_iff)
  with p show ?thesis by auto
qed

lemma list_index_first:
  "v \<in> set xs \<Longrightarrow> \<exists>i. list_index xs v = Inr i \<and> first_index xs v i"
proof (induction xs)
  case Nil
  then show ?case by simp
next
  case (Cons y ys)
  show ?case
  proof (cases "y = v")
    case True
    then show ?thesis by (simp add: first_index_def)
  next
    case False
    with Cons obtain i where "list_index ys v = Inr i" "first_index ys v i"
      by auto
    with False show ?thesis
      by (auto simp: first_index_def)
  qed
qed

lemma slice_is_run:
  assumes "a \<le> b" "b < length xs"
  shows "slice xs a (b + 1) = circular_run xs a (b - a + 1)"
proof (rule nth_equalityI)
  show "length (slice xs a (b + 1)) = length (circular_run xs a (b - a + 1))"
    using assms by (simp add: slice_def circular_run_def)
next
  fix k assume "k < length (slice xs a (b + 1))"
  then have k: "k < b + 1 - a"
    by (simp add: slice_def)
  then have "a + k < length xs" "k < Suc (b - a)"
    using assms by simp_all
  then show "slice xs a (b + 1) ! k = circular_run xs a (b - a + 1) ! k"
    using assms by (simp add: slice_def circular_run_def del: upt_Suc)
qed

lemma wrap_is_run:
  assumes "b \<le> a" "a < length xs"
  shows "drop a xs @ take (b + 1) xs = circular_run xs a (length xs - a + b + 1)"
proof (rule nth_equalityI)
  show "length (drop a xs @ take (b + 1) xs) = length (circular_run xs a (length xs - a + b + 1))"
    using assms by (simp add: circular_run_def)
next
  fix k assume "k < length (drop a xs @ take (b + 1) xs)"
  then have k: "k < length xs - a + b + 1"
    using assms by simp
  show "(drop a xs @ take (b + 1) xs) ! k = circular_run xs a (length xs - a + b + 1) ! k"
  proof (cases "k < length xs - a")
    case True
    then show ?thesis
      using k by (simp add: nth_append circular_run_def del: upt_Suc)
  next
    case False
    then have "length xs \<le> a + k" "a + k < 2 * length xs"
      using k assms by auto
    then have "(a + k) mod length xs = a + k - length xs"
      by (metis (no_types, lifting) add_diff_cancel_left' le_add_diff_inverse le_mod_geq mod_less mult_2 nat_add_left_cancel_less)
    moreover have "a + k - length xs = k - (length xs - a)"
      using assms False by simp
    ultimately show ?thesis
      using k False assms by (simp add: nth_append circular_run_def del: upt_Suc)
  qed
qed

lemma hd_last_run:
  assumes "0 < n" "length xs > 0"
  shows "hd (circular_run xs a n) = xs ! (a mod length xs)"
    and "last (circular_run xs a n) = xs ! ((a + n - 1) mod length xs)"
  using assms by (simp_all add: circular_run_def hd_map last_map Nat.add_diff_assoc del: upt_Suc)

lemma bottom_of_polygon_run:
  assumes "points \<noteq> []"
  shows "\<exists>idx_left idx_right.
     first_index points (lowest_at points (Min (fst ` set points))) idx_left
   \<and> first_index points (lowest_at points (Max (fst ` set points))) idx_right
   \<and> bottom_of_polygon points =
       Inr (rev (circular_run points idx_right
                   (if idx_right < idx_left then idx_left - idx_right + 1
                    else length points - idx_right + idx_left + 1)))"
proof -
  let ?left = "Min (fst ` set points)" and ?right = "Max (fst ` set points)"
  have ne: "map fst points \<noteq> []" "fst ` set points \<noteq> {}" "finite (fst ` set points)"
    using assms by auto
  have mn: "py_min (map fst points) = Inr ?left"
    using py_min_eq [OF ne(1)] by simp
  have mx: "py_max (map fst points) = Inr ?right"
    using py_max_eq [OF ne(1)] by simp
  have "?left \<in> fst ` set points"
    using ne by (intro Min_in)
  from first_item_lowest [OF this]
  have bl: "first_item (sort_key snd (filter (\<lambda>p. fst p = ?left) points)) = Inr (lowest_at points ?left)"
    and bl_in: "lowest_at points ?left \<in> set points"
    by auto
  have "?right \<in> fst ` set points"
    using ne by (intro Max_in)
  from first_item_lowest [OF this]
  have br: "first_item (sort_key snd (filter (\<lambda>p. fst p = ?right) points)) = Inr (lowest_at points ?right)"
    and br_in: "lowest_at points ?right \<in> set points"
    by auto
  from list_index_first [OF bl_in] obtain il where
    il: "list_index points (lowest_at points ?left) = Inr il"
        "first_index points (lowest_at points ?left) il"
    by blast
  from list_index_first [OF br_in] obtain ir where
    ir: "list_index points (lowest_at points ?right) = Inr ir"
        "first_index points (lowest_at points ?right) ir"
    by blast
  have lt: "il < length points" "ir < length points"
    using il(2) ir(2) by (auto simp: first_index_def)
  have run: "(if il > ir then slice points ir (il + 1)
              else drop ir points @ take (il + 1) points)
           = circular_run points ir
               (if ir < il then il - ir + 1 else length points - ir + il + 1)"
    using lt by (auto simp: slice_is_run wrap_is_run simp del: One_nat_def)
  have "bottom_of_polygon points =
          Inr (rev (if il > ir then slice points ir (il + 1)
                    else drop ir points @ take (il + 1) points))"
    unfolding bottom_of_polygon_def by (simp only: mn mx bl br il(1) ir(1) and_then_def sum.case)
  then have "bottom_of_polygon points =
          Inr (rev (circular_run points ir
               (if ir < il then il - ir + 1 else length points - ir + il + 1)))"
    by (simp only: run)
  with il(2) ir(2) show ?thesis
    by (intro exI [of _ il] exI [of _ ir] conjI)
qed


lemma run_ends:
  assumes "il < length xs" "ir < length xs"
  defines "n \<equiv> (if ir < il then il - ir + 1 else length xs - ir + il + 1)"
  shows "rev (circular_run xs ir n) \<noteq> []"
    and "hd (rev (circular_run xs ir n)) = xs ! il"
    and "last (rev (circular_run xs ir n)) = xs ! ir"
proof -
  have n: "0 < n" and len: "0 < length xs"
    using assms by (auto simp: n_def)
  have m: "(ir + n - 1) mod length xs = il"
    using assms(1,2) by (auto simp: n_def)
  show "rev (circular_run xs ir n) \<noteq> []"
    using n by (simp add: circular_run_def)
  then have ne: "circular_run xs ir n \<noteq> []"
    by simp
  show "hd (rev (circular_run xs ir n)) = xs ! il"
    using hd_last_run(2) [OF n len, of ir] m ne by (simp add: hd_rev)
  show "last (rev (circular_run xs ir n)) = xs ! ir"
    using hd_last_run(1) [OF n len, of ir] assms(2) ne by (simp add: last_rev)
qed

text \<open>
  C1 (as amended).  On every non-empty vertex list \<open>bottom_of_polygon\<close> selects the
  vertex of minimum x with the lowest y and the vertex of maximum x with the lowest
  y, each at its first position in the list.  It takes the contiguous circular run
  that starts at the index of the right vertex and ends at the index of the left
  vertex, passing the end of the list when the left index does not come after the
  right index, and returns that run reversed.  The result therefore begins with the
  selected left vertex, of minimum x, and ends with the selected right vertex, of
  maximum x.
\<close>

theorem bottom_of_polygon_right_to_left:
  assumes "points \<noteq> []"
  shows "\<exists>idx_left idx_right result.
     first_index points (lowest_at points (Min (fst ` set points))) idx_left
   \<and> first_index points (lowest_at points (Max (fst ` set points))) idx_right
   \<and> bottom_of_polygon points = Inr result
   \<and> result = rev (circular_run points idx_right
                   (if idx_right < idx_left then idx_left - idx_right + 1
                    else length points - idx_right + idx_left + 1))
   \<and> result \<noteq> []
   \<and> hd result = points ! idx_left \<and> last result = points ! idx_right
   \<and> fst (hd result) = Min (fst ` set points)
   \<and> fst (last result) = Max (fst ` set points)"
proof -
  from bottom_of_polygon_run [OF assms] obtain il ir where
    il: "first_index points (lowest_at points (Min (fst ` set points))) il" and
    ir: "first_index points (lowest_at points (Max (fst ` set points))) ir" and
    res: "bottom_of_polygon points =
       Inr (rev (circular_run points ir
                   (if ir < il then il - ir + 1 else length points - ir + il + 1)))"
    by blast
  let ?r = "rev (circular_run points ir
                   (if ir < il then il - ir + 1 else length points - ir + il + 1))"
  have lt: "il < length points" "ir < length points"
    using il ir by (auto simp: first_index_def)
  have pl: "points ! il = lowest_at points (Min (fst ` set points))"
    and pr: "points ! ir = lowest_at points (Max (fst ` set points))"
    using il ir by (auto simp: first_index_def)
  note ends = run_ends [OF lt]
  have "fst (hd ?r) = Min (fst ` set points)"
    by (simp only: ends(2) pl) (simp add: lowest_at_def)
  moreover have "fst (last ?r) = Max (fst ` set points)"
    by (simp only: ends(3) pr) (simp add: lowest_at_def)
  ultimately show ?thesis
    using il ir res ends by (intro exI [of _ il] exI [of _ ir] exI [of _ ?r] conjI) auto
qed


text \<open>The theorem at the clockwise unit square.\<close>

theorem bottom_of_polygon_right_to_left_witness:
  "([(0, 0), (0, 1), (1, 1), (1, 0)] :: point list) \<noteq> []
   \<and> (\<exists>idx_left idx_right result.
     first_index ([(0, 0), (0, 1), (1, 1), (1, 0)] :: point list)
       (lowest_at ([(0, 0), (0, 1), (1, 1), (1, 0)] :: point list) (Min (fst ` set ([(0, 0), (0, 1), (1, 1), (1, 0)] :: point list)))) idx_left
   \<and> first_index ([(0, 0), (0, 1), (1, 1), (1, 0)] :: point list)
       (lowest_at ([(0, 0), (0, 1), (1, 1), (1, 0)] :: point list) (Max (fst ` set ([(0, 0), (0, 1), (1, 1), (1, 0)] :: point list)))) idx_right
   \<and> bottom_of_polygon ([(0, 0), (0, 1), (1, 1), (1, 0)] :: point list) = Inr result
   \<and> result = rev (circular_run ([(0, 0), (0, 1), (1, 1), (1, 0)] :: point list) idx_right
                   (if idx_right < idx_left then idx_left - idx_right + 1
                    else length ([(0, 0), (0, 1), (1, 1), (1, 0)] :: point list) - idx_right + idx_left + 1))
   \<and> result \<noteq> []
   \<and> hd result = ([(0, 0), (0, 1), (1, 1), (1, 0)] :: point list) ! idx_left
   \<and> last result = ([(0, 0), (0, 1), (1, 1), (1, 0)] :: point list) ! idx_right
   \<and> fst (hd result) = Min (fst ` set ([(0, 0), (0, 1), (1, 1), (1, 0)] :: point list))
   \<and> fst (last result) = Max (fst ` set ([(0, 0), (0, 1), (1, 1), (1, 0)] :: point list)))"
proof -
  have h: "([(0, 0), (0, 1), (1, 1), (1, 0)] :: point list) \<noteq> []"
    by simp
  from h bottom_of_polygon_right_to_left [OF h] show ?thesis
    by (rule conjI)
qed

text \<open>
  C1 as it is stated: the run from the left index to the right index, wrapping when
  the right index precedes the left one, reversed.  On the clockwise unit square the
  left vertex \<open>(0,0)\<close> has index 0 and the right vertex \<open>(1,0)\<close> index 3; the stated run
  is the whole list, and its reversal begins with the vertex of maximum x.  The
  function returns \<open>[(0,0),(1,0)]\<close>.
\<close>

theorem bottom_of_polygon_spec_counterexample:
  "bottom_of_polygon [(0, 0), (0, 1), (1, 1), (1, 0)] = Inr [(0, 0), (1, 0)]
   \<and> bottom_of_polygon_spec [(0, 0), (0, 1), (1, 1), (1, 0)] = Inr [(1, 0), (1, 1), (0, 1), (0, 0)]
   \<and> bottom_of_polygon [(0, 0), (0, 1), (1, 1), (1, 0)]
       \<noteq> bottom_of_polygon_spec [(0, 0), (0, 1), (1, 1), (1, 0)]"
  by (simp add: bottom_of_polygon_def bottom_of_polygon_spec_def and_then_def first_item_def
        slice_def)

text \<open>
  C9.  On the clockwise unit square \<open>[(0,0),(0,1),(1,1),(1,0)]\<close>, \<open>top_of_polygon\<close>
  returns the upper edge \<open>[(0,1),(1,1)]\<close> and \<open>bottom_of_polygon\<close> the lower edge
  \<open>[(0,0),(1,0)]\<close>, both from left to right; the two results together contain all
  four vertices.
\<close>

theorem unit_square_top_and_bottom:
  "top_of_polygon [(0, 0), (0, 1), (1, 1), (1, 0)] = Inr [(0, 1), (1, 1)]
   \<and> bottom_of_polygon [(0, 0), (0, 1), (1, 1), (1, 0)] = Inr [(0, 0), (1, 0)]
   \<and> set [(0, 1), (1, 1)] \<union> set [(0, 0), (1, 0)]
       = set ([(0, 0), (0, 1), (1, 1), (1, 0)] :: point list)"
proof (intro conjI)
  show "top_of_polygon [(0, 0), (0, 1), (1, 1), (1, 0)] = Inr [(0, 1), (1, 1)]"
    by (simp add: top_of_polygon_def and_then_def last_item_def slice_def)
  show "bottom_of_polygon [(0, 0), (0, 1), (1, 1), (1, 0)] = Inr [(0, 0), (1, 0)]"
    by (simp add: bottom_of_polygon_def and_then_def first_item_def slice_def)
  show "set [(0, 1), (1, 1)] \<union> set [(0, 0), (1, 0)]
       = set ([(0, 0), (0, 1), (1, 1), (1, 0)] :: point list)"
    by auto
qed

section \<open>Properties of polyline_polyline_intersections\<close>

lemma ppi_unfold:
  assumes "intersection l1 l2 = Inr g" "intersection_result g = Inr result"
  shows "polyline_polyline_intersections intersection l1 l2 =
           Inr (sort_key fst (filter (\<lambda>p. p \<notin> set l1 \<or> p \<in> set l2) result))"
  using assms by (simp add: polyline_polyline_intersections_def and_then_def Let_def)

text \<open>
  C3.  Let \<open>result\<close> be the candidate points read from the intersection geometry.
  A point is in the output exactly when it is a candidate and it is not a vertex of
  line 1, or is a vertex of line 2; the output has every such candidate as often as
  \<open>result\<close> has it.  The filter is not symmetric in the two lines: with one and the
  same intersection geometry, exchanging the lines can change the output.
\<close>

theorem intersections_filter:
  "(intersection l1 l2 = Inr g \<and> intersection_result g = Inr result \<longrightarrow>
     (\<exists>out. polyline_polyline_intersections intersection l1 l2 = Inr out
        \<and> (\<forall>p. p \<in> set out \<longleftrightarrow> p \<in> set result \<and> (p \<notin> set l1 \<or> p \<in> set l2))
        \<and> mset out = filter_mset (\<lambda>p. p \<notin> set l1 \<or> p \<in> set l2) (mset result)))
   \<and> (\<exists>f a b. f a b = f b a
        \<and> polyline_polyline_intersections f a b \<noteq> polyline_polyline_intersections f b a)"
proof (intro conjI impI)
  assume "intersection l1 l2 = Inr g \<and> intersection_result g = Inr result"
  then have "polyline_polyline_intersections intersection l1 l2 =
           Inr (sort_key fst (filter (\<lambda>p. p \<notin> set l1 \<or> p \<in> set l2) result))"
    by (simp add: ppi_unfold)
  then show "\<exists>out. polyline_polyline_intersections intersection l1 l2 = Inr out
        \<and> (\<forall>p. p \<in> set out \<longleftrightarrow> p \<in> set result \<and> (p \<notin> set l1 \<or> p \<in> set l2))
        \<and> mset out = filter_mset (\<lambda>p. p \<notin> set l1 \<or> p \<in> set l2) (mset result)"
    by auto
next
  let ?f = "\<lambda>(a :: point list) (b :: point list). (Inr (Point (Some (1, 1))) :: error + geometry)"
  let ?a = "[(0, 0), (1, 1), (2, 0)] :: point list"
  let ?b = "[(0, 2), (2, 0)] :: point list"
  have "polyline_polyline_intersections ?f ?a ?b = Inr []"
    by (simp add: polyline_polyline_intersections_def and_then_def intersection_result_def)
  moreover have "polyline_polyline_intersections ?f ?b ?a = Inr [(1, 1)]"
    by (simp add: polyline_polyline_intersections_def and_then_def intersection_result_def)
  ultimately have "?f ?a ?b = ?f ?b ?a
     \<and> polyline_polyline_intersections ?f ?a ?b \<noteq> polyline_polyline_intersections ?f ?b ?a"
    by simp
  then show "\<exists>f a b. f a b = f b a
        \<and> polyline_polyline_intersections f a b \<noteq> polyline_polyline_intersections f b a"
    by (intro exI [of _ ?f] exI [of _ ?a] exI [of _ ?b])
qed

text \<open>The first part of the theorem at a multi-point intersection of three candidates.\<close>

theorem intersections_filter_witness:
  "(\<lambda>(a :: point list) (b :: point list). (Inr (MultiPoint [(1, 1), (0, 0), (3, 3)]) :: error + geometry))
       [(0, 0), (1, 1)] [(1, 1), (5, 5)] = Inr (MultiPoint [(1, 1), (0, 0), (3, 3)])
   \<and> intersection_result (MultiPoint [(1, 1), (0, 0), (3, 3)]) = Inr [(1, 1), (0, 0), (3, 3)]
   \<and> (\<exists>out. polyline_polyline_intersections
          (\<lambda>a b. Inr (MultiPoint [(1, 1), (0, 0), (3, 3)])) [(0, 0), (1, 1)] [(1, 1), (5, 5)] = Inr out
        \<and> (\<forall>p. p \<in> set out \<longleftrightarrow>
              p \<in> set [(1, 1), (0, 0), (3, 3)]
              \<and> (p \<notin> set [(0, 0), (1, 1)] \<or> p \<in> set [(1, 1), (5, 5)]))
        \<and> mset out = filter_mset (\<lambda>p. p \<notin> set [(0, 0), (1, 1)] \<or> p \<in> set [(1, 1), (5, 5)])
                        (mset [(1, 1), (0, 0), (3, 3)]))"
proof -
  have pre: "(\<lambda>(a :: point list) (b :: point list). (Inr (MultiPoint [(1, 1), (0, 0), (3, 3)]) :: error + geometry))
       [(0, 0), (1, 1)] [(1, 1), (5, 5)] = Inr (MultiPoint [(1, 1), (0, 0), (3, 3)])
   \<and> intersection_result (MultiPoint [(1, 1), (0, 0), (3, 3)]) = Inr [(1, 1), (0, 0), (3, 3)]"
    by (simp add: intersection_result_def)
  from intersections_filter
         [of "\<lambda>a b. Inr (MultiPoint [(1, 1), (0, 0), (3, 3)])" "[(0, 0), (1, 1)]" "[(1, 1), (5, 5)]"
             "MultiPoint [(1, 1), (0, 0), (3, 3)]" "[(1, 1), (0, 0), (3, 3)]",
          THEN conjunct1, rule_format, OF pre]
  show ?thesis using pre by blast
qed

text \<open>
  C4.  Whatever sequence the function returns is sorted in ascending order of the
  x-coordinates of its points.
\<close>

theorem intersections_sorted_by_x:
  assumes "polyline_polyline_intersections intersection l1 l2 = Inr out"
  shows "sorted (map fst out)"
  using assms
  by (auto simp: polyline_polyline_intersections_def and_then_def Let_def sorted_sort_key
           split: sum.splits if_splits)

theorem intersections_sorted_by_x_witness:
  "polyline_polyline_intersections
       (\<lambda>a b. Inr (MultiPoint [(3, 1), (1, 2), (2, 0)])) [(0, 0), (5, 5)] [(0, 5), (5, 0)]
     = Inr [(1, 2), (2, 0), (3, 1)]
   \<and> sorted (map fst ([(1, 2), (2, 0), (3, 1)] :: point list))"
proof -
  have e: "polyline_polyline_intersections
       (\<lambda>a b. Inr (MultiPoint [(3, 1), (1, 2), (2, 0)])) [(0, 0), (5, 5)] [(0, 5), (5, 0)]
     = Inr [(1, 2), (2, 0), (3, 1)]"
    by (simp add: polyline_polyline_intersections_def and_then_def intersection_result_def)
  from e intersections_sorted_by_x [OF e] show ?thesis
    by (rule conjI)
qed

text \<open>
  C5.  When the intersection geometry is a line string (the two polylines overlap
  along a segment), the function returns the empty list.
\<close>

theorem intersections_linestring_empty:
  assumes "intersection l1 l2 = Inr (LineString cs)"
  shows "polyline_polyline_intersections intersection l1 l2 = Inr []"
  using assms
  by (simp add: polyline_polyline_intersections_def and_then_def intersection_result_def)

theorem intersections_linestring_empty_witness:
  "(\<lambda>(a :: point list) (b :: point list). (Inr (LineString [(1, 0), (2, 0)]) :: error + geometry))
       [(0, 0), (2, 0)] [(1, 0), (3, 0)] = Inr (LineString [(1, 0), (2, 0)])
   \<and> polyline_polyline_intersections
       (\<lambda>a b. Inr (LineString [(1, 0), (2, 0)])) [(0, 0), (2, 0)] [(1, 0), (3, 0)] = Inr []"
proof -
  have h: "(\<lambda>(a :: point list) (b :: point list). (Inr (LineString [(1, 0), (2, 0)]) :: error + geometry))
       [(0, 0), (2, 0)] [(1, 0), (3, 0)] = Inr (LineString [(1, 0), (2, 0)])"
    by simp
  from h intersections_linestring_empty
         [of "\<lambda>a b. Inr (LineString [(1, 0), (2, 0)])" "[(0, 0), (2, 0)]" "[(1, 0), (3, 0)]", OF h]
  show ?thesis
    by (rule conjI)
qed

text \<open>
  C6.  When the intersection geometry is not empty and is neither a point, nor a
  multi-point, nor a line string, the function raises the ValueError for an
  unimplemented intersection type, and returns no sequence.
\<close>

theorem intersections_unsupported_type:
  assumes "intersection l1 l2 = Inr g" and "\<not> is_empty g"
    and "\<forall>c. g \<noteq> Point c" and "\<forall>gs. g \<noteq> MultiPoint gs" and "\<forall>cs. g \<noteq> LineString cs"
  shows "\<exists>nm. polyline_polyline_intersections intersection l1 l2 = Inl (ValueError_Unimplemented nm)
           \<and> (\<forall>out. polyline_polyline_intersections intersection l1 l2 \<noteq> Inr out)"
  using assms
  by (cases g) (auto simp: polyline_polyline_intersections_def and_then_def intersection_result_def)

theorem intersections_unsupported_type_witness:
  "(\<lambda>(a :: point list) (b :: point list).
        (Inr (OtherGeometry ''GeometryCollection'' False) :: error + geometry))
       [(0, 0), (2, 0), (3, 1)] [(1, 0), (3, 0), (3, 1)]
     = Inr (OtherGeometry ''GeometryCollection'' False)
   \<and> \<not> is_empty (OtherGeometry ''GeometryCollection'' False)
   \<and> (\<forall>c. OtherGeometry ''GeometryCollection'' False \<noteq> Point c)
   \<and> (\<forall>gs. OtherGeometry ''GeometryCollection'' False \<noteq> MultiPoint gs)
   \<and> (\<forall>cs. OtherGeometry ''GeometryCollection'' False \<noteq> LineString cs)
   \<and> (\<exists>nm. polyline_polyline_intersections
              (\<lambda>a b. Inr (OtherGeometry ''GeometryCollection'' False))
              [(0, 0), (2, 0), (3, 1)] [(1, 0), (3, 0), (3, 1)]
            = Inl (ValueError_Unimplemented nm)
         \<and> (\<forall>out. polyline_polyline_intersections
              (\<lambda>a b. Inr (OtherGeometry ''GeometryCollection'' False))
              [(0, 0), (2, 0), (3, 1)] [(1, 0), (3, 0), (3, 1)] \<noteq> Inr out))"
proof -
  have h1: "(\<lambda>(a :: point list) (b :: point list).
        (Inr (OtherGeometry ''GeometryCollection'' False) :: error + geometry))
       [(0, 0), (2, 0), (3, 1)] [(1, 0), (3, 0), (3, 1)]
     = Inr (OtherGeometry ''GeometryCollection'' False)"
    by simp
  have h2: "\<not> is_empty (OtherGeometry ''GeometryCollection'' False)"
    by simp
  have h3: "\<forall>c. OtherGeometry ''GeometryCollection'' False \<noteq> Point c"
    and h4: "\<forall>gs. OtherGeometry ''GeometryCollection'' False \<noteq> MultiPoint gs"
    and h5: "\<forall>cs. OtherGeometry ''GeometryCollection'' False \<noteq> LineString cs"
    by simp_all
  from intersections_unsupported_type
         [of "\<lambda>a b. Inr (OtherGeometry ''GeometryCollection'' False)"
             "[(0, 0), (2, 0), (3, 1)]" "[(1, 0), (3, 0), (3, 1)]", OF h1 h2 h3 h4 h5]
  show ?thesis using h1 h2 h3 h4 h5 by blast
qed

end
